theory Spec2Isabelle
  imports Main "HOL-Library.Multiset"
begin

section \<open>Python values and exceptions\<close>

text \<open>
  Python strings are modelled as \<open>string\<close> (lists of 8-bit characters), so the model
  covers ASCII / Latin-1 text. A Python exception leaving a function is the \<open>Inl\<close>
  summand of its result. \<open>Timeout\<close> and \<open>HTTPError\<close> are subclasses of
  \<open>RequestException\<close> in the \<^verbatim>\<open>requests\<close> library. \<open>NotFound\<close> is the exception raised
  by Flask's \<^verbatim>\<open>abort(404)\<close>, which the web framework turns into the not-found response.
\<close>

datatype exn =
    AttributeError
  | KeyError
  | IndexError
  | TypeError
  | ValueError
  | UnboundLocalError
  | Timeout
  | RequestException
  | HTTPError
  | NotFound

text \<open>Truthiness of an optional string: \<^verbatim>\<open>None\<close> and \<^verbatim>\<open>""\<close> are falsy.\<close>

definition truthy :: "string option \<Rightarrow> bool" where
  "truthy v = (case v of None \<Rightarrow> False | Some s \<Rightarrow> s \<noteq> [])"

text \<open>\<^verbatim>\<open>a or b\<close> on optional strings.\<close>

definition py_or :: "string option \<Rightarrow> string option \<Rightarrow> string option" where
  "py_or a b = (if truthy a then a else b)"

text \<open>
  \<^verbatim>\<open>str.isspace\<close> on one character, restricted to 8-bit characters: TAB, LF, VT, FF,
  CR, the separators 0x1C..0x1F, space, NEL (0x85) and NBSP (0xA0). The same set is what
  \<^verbatim>\<open>\s\<close> matches in a \<^verbatim>\<open>str\<close> pattern.
\<close>

definition is_space :: "char \<Rightarrow> bool" where
  "is_space c = (let n = (of_char c :: nat) in
     (9 \<le> n \<and> n \<le> 13) \<or> (28 \<le> n \<and> n \<le> 32) \<or> n = 133 \<or> n = 160)"

text \<open>\<^verbatim>\<open>str.strip()\<close>: drop leading and trailing whitespace.\<close>

definition strip :: "string \<Rightarrow> string" where
  "strip s = rev (dropWhile is_space (rev (dropWhile is_space s)))"

text \<open>ASCII case folding, as used for literals under \<^verbatim>\<open>re.I\<close>.\<close>

definition lower :: "char \<Rightarrow> char" where
  "lower c = (let n = (of_char c :: nat) in
     if 65 \<le> n \<and> n \<le> 90 then char_of (n + 32) else c)"

text \<open>\<^verbatim>\<open>str.replace(old, new)\<close> for a non-empty \<^verbatim>\<open>old\<close>: all non-overlapping
  occurrences, left to right.\<close>

fun replace :: "string \<Rightarrow> string \<Rightarrow> string \<Rightarrow> string" where
  "replace old new [] = []"
| "replace old new (c # cs) =
     (if old \<noteq> [] \<and> take (length old) (c # cs) = old
      then new @ replace old new (drop (length old) (c # cs))
      else c # replace old new cs)"

section \<open>Regular expressions with backtracking\<close>

text \<open>
  The two compiled patterns of \<^verbatim>\<open>theme/gouvfr/__init__.py\<close> are written as syntax
  trees and run by a backtracking matcher. A matcher state is the capture groups set so
  far and the input that is left. \<open>ms r s\<close> lists every way \<open>r\<close> can match at \<open>s\<close>, in
  the order in which a backtracking engine tries them (greedy loops try one more
  iteration first, lazy loops try to stop first, alternatives left to right), so the head
  of the list is the match Python's \<^verbatim>\<open>re\<close> reports. Both patterns are compiled with
  \<^verbatim>\<open>re.I\<close> (literals compare case-insensitively); \<open>Any\<close> is \<^verbatim>\<open>.\<close> under \<^verbatim>\<open>re.S\<close>.
  Every loop body of the two patterns consumes at least one character, so a loop over an
  input of length \<open>n\<close> has at most \<open>n\<close> iterations.
\<close>

datatype rx =
    Lit char
  | Any
  | Space
  | NotAngle
  | Eps
  | Cat rx rx
  | Alt rx rx
  | Star rx
  | StarLazy rx
  | Group string rx

type_synonym groups = "(string \<times> string) list"
type_synonym mstate = "groups \<times> string"

fun step_char :: "(char \<Rightarrow> bool) \<Rightarrow> mstate \<Rightarrow> mstate list" where
  "step_char p (g, []) = []"
| "step_char p (g, c # cs) = (if p c then [(g, cs)] else [])"

fun star_greedy :: "(mstate \<Rightarrow> mstate list) \<Rightarrow> nat \<Rightarrow> mstate \<Rightarrow> mstate list" where
  "star_greedy f 0 s = [s]"
| "star_greedy f (Suc n) s =
     concat (map (\<lambda>s'. if length (snd s') < length (snd s) then star_greedy f n s' else [])
                 (f s)) @ [s]"

fun star_lazy :: "(mstate \<Rightarrow> mstate list) \<Rightarrow> nat \<Rightarrow> mstate \<Rightarrow> mstate list" where
  "star_lazy f 0 s = [s]"
| "star_lazy f (Suc n) s =
     s # concat (map (\<lambda>s'. if length (snd s') < length (snd s) then star_lazy f n s' else [])
                     (f s))"

definition set_group :: "string \<Rightarrow> mstate \<Rightarrow> mstate \<Rightarrow> mstate" where
  "set_group name s s' =
     ((name, take (length (snd s) - length (snd s')) (snd s)) # fst s', snd s')"

primrec ms :: "rx \<Rightarrow> mstate \<Rightarrow> mstate list" where
  "ms (Lit c) = step_char (\<lambda>x. lower x = lower c)"
| "ms Any = step_char (\<lambda>x. True)"
| "ms Space = step_char is_space"
| "ms NotAngle = step_char (\<lambda>x. x \<noteq> CHR ''<'' \<and> x \<noteq> CHR ''>'')"
| "ms Eps = (\<lambda>s. [s])"
| "ms (Cat a b) = (\<lambda>s. concat (map (ms b) (ms a s)))"
| "ms (Alt a b) = (\<lambda>s. ms a s @ ms b s)"
| "ms (Star r) = (\<lambda>s. star_greedy (ms r) (length (snd s)) s)"
| "ms (StarLazy r) = (\<lambda>s. star_lazy (ms r) (length (snd s)) s)"
| "ms (Group name r) = (\<lambda>s. map (set_group name s) (ms r s))"

text \<open>A literal word, a sequence of patterns, \<^verbatim>\<open>r+\<close> and \<^verbatim>\<open>r?\<close>.\<close>

definition lit :: "string \<Rightarrow> rx" where
  "lit w = foldr (\<lambda>c r. Cat (Lit c) r) w Eps"

definition seqs :: "rx list \<Rightarrow> rx" where
  "seqs rs = foldr Cat rs Eps"

definition OneOrMore :: "rx \<Rightarrow> rx" where
  "OneOrMore r = Cat r (Star r)"

definition OneOrMoreLazy :: "rx \<Rightarrow> rx" where
  "OneOrMoreLazy r = Cat r (StarLazy r)"

definition Optional :: "rx \<Rightarrow> rx" where
  "Optional r = Alt r Eps"

text \<open>
  \<^verbatim>\<open>pattern.search(s)\<close>: the first start position, left to right, at which the pattern
  matches. The result is the text before the match, the groups, and the text after it.
\<close>

fun search_from :: "rx \<Rightarrow> string \<Rightarrow> string \<Rightarrow> (string \<times> groups \<times> string) option" where
  "search_from r pre s =
     (case ms r ([], s) of
        (g, rest) # _ \<Rightarrow> Some (rev pre, g, rest)
      | [] \<Rightarrow> (case s of [] \<Rightarrow> None | c # cs \<Rightarrow> search_from r (c # pre) cs))"

definition search :: "rx \<Rightarrow> string \<Rightarrow> groups option" where
  "search r s = map_option (\<lambda>(pre, g, rest). g) (search_from r [] s)"

text \<open>\<^verbatim>\<open>match.group(name)\<close>: the last capture of the group, \<^verbatim>\<open>None\<close> if it took no part.\<close>

definition match_group :: "groups \<Rightarrow> string \<Rightarrow> string option" where
  "match_group g name = map_of g name"

text \<open>
  \<^verbatim>\<open>
  RE_POST_IMG = re.compile(r"""
      <img .*? (?:(?:
          src="(?P<src>https?://.+?)"
          |
          srcset="(?P<srcset>.+?)"
          |
          sizes="(?P<sizes>.+?)"
      )\s*)+ .*?/>
      """, re.I | re.X | re.S)
  \<close>
  Under \<^verbatim>\<open>re.X\<close> the blanks and line breaks of the pattern are not part of it.
\<close>

definition RE_POST_IMG :: rx where
  "RE_POST_IMG = seqs
     [lit ''<img'', StarLazy Any,
      OneOrMore (Cat
        (Alt (seqs [lit ''src=\"'',
                    Group ''src'' (seqs [lit ''http'', Optional (Lit CHR ''s''), lit ''://'', OneOrMoreLazy Any]),
                    lit ''\"''])
        (Alt (seqs [lit ''srcset=\"'', Group ''srcset'' (OneOrMoreLazy Any), lit ''\"''])
             (seqs [lit ''sizes=\"'', Group ''sizes'' (OneOrMoreLazy Any), lit ''\"''])))
        (Star Space)),
      StarLazy Any, lit ''/>'']"

text \<open>
  \<^verbatim>\<open>RE_STRIP_TAGS = re.compile(r"</?(img|br|p|div|ul|li|ol)[^<>]*?>", re.I | re.M)\<close>
\<close>

definition RE_STRIP_TAGS :: rx where
  "RE_STRIP_TAGS = seqs
     [Lit CHR ''<'', Optional (Lit CHR ''/''),
      Group ''1'' (Alt (lit ''img'') (Alt (lit ''br'') (Alt (lit ''p'') (Alt (lit ''div'')
                  (Alt (lit ''ul'') (Alt (lit ''li'') (lit ''ol''))))))),
      StarLazy NotAngle, Lit CHR ''>'']"

text \<open>
  \<^verbatim>\<open>pattern.sub("", s)\<close> for a pattern that never matches the empty string: every
  leftmost non-overlapping match is removed. The fuel bounds the number of matches by
  the length of the input.
\<close>

fun sub_empty_fuel :: "nat \<Rightarrow> rx \<Rightarrow> string \<Rightarrow> string" where
  "sub_empty_fuel 0 r s = s"
| "sub_empty_fuel (Suc n) r s =
     (case search_from r [] s of
        None \<Rightarrow> s
      | Some (pre, g, rest) \<Rightarrow>
          if length rest < length s then pre @ sub_empty_fuel n r rest else s)"

definition sub_empty :: "rx \<Rightarrow> string \<Rightarrow> string" where
  "sub_empty r s = sub_empty_fuel (length s) r s"

section \<open>Collaborators\<close>

text \<open>
  The remote services, the feed parser and the date parser are parameters of the model.
  An HTTP call either raises \<^verbatim>\<open>requests.Timeout\<close>, raises another
  \<^verbatim>\<open>requests.RequestException\<close>, or returns a response. Every call is recorded in the
  trace of the state, with the timeout it was issued with (\<open>None\<close> when the call passes
  no timeout, in which case \<^verbatim>\<open>requests\<close> waits without bound), and so is every access
  to the cache store. \<open>cache\<close> is the key-value store behind \<^verbatim>\<open>cache.get\<close> and
  \<^verbatim>\<open>cache.set\<close>. The decorators \<^verbatim>\<open>@cache.memoize\<close> belong to the cache library; the
  definitions below are the bodies they wrap, that is, what runs on a memoization miss.
\<close>

type_synonym pydict = "(string \<times> string) list"

datatype datetime = Datetime int

datatype http_method = GET | HEAD

record request =
  http_method :: http_method
  url :: string
  timeout :: "nat option"

record response =
  status_code :: nat
  body :: string

datatype http_result = Raises_Timeout | Raises_RequestException | Returns response

text \<open>
  A parsed feed entry as \<^verbatim>\<open>get_blog_post\<close> reads it: \<open>None\<close> is a missing attribute
  or key. \<open>post_content\<close> is the list of content dictionaries, \<open>post_media_thumbnail\<close>
  and \<open>post_enclosures\<close> are lists of attribute dictionaries.
\<close>

record entry =
  post_title :: "string option"
  post_link :: "string option"
  post_published :: "string option"
  post_description :: "string option"
  post_content :: "pydict list option"
  post_summary :: "string option"
  post_media_thumbnail :: "pydict list option"
  post_enclosures :: "pydict list option"

text \<open>
  \<open>http\<close> is the answer of the network to a request, \<open>feedparser_parse\<close> gives the
  entries of \<^verbatim>\<open>feedparser.parse(response.content)\<close>, \<open>dateutil_parse\<close> is
  \<^verbatim>\<open>dateutil.parser.parse\<close> (\<open>None\<close> when it raises its \<^verbatim>\<open>ValueError\<close>), and
  \<open>format_lang t code\<close> is \<^verbatim>\<open>t.format(lang=code)\<close>, which raises on a template with
  other fields.
\<close>

record env =
  http :: "request \<Rightarrow> http_result"
  feedparser_parse :: "string \<Rightarrow> entry list"
  dateutil_parse :: "string \<Rightarrow> datetime option"
  format_lang :: "string \<Rightarrow> string \<Rightarrow> exn + string"

record config =
  WP_ATOM_URL :: "string option"
  DEFAULT_LANGUAGE :: "string option"
  PAGES_GH_REPO_NAME :: "string option"
  PAGES_REPO_BRANCH :: "string option"

datatype event = Request request | CacheGet string | CacheSet string string

record state =
  cache :: "string \<Rightarrow> string option"
  trace :: "event list"

definition exn_bind :: "exn + 'a \<Rightarrow> ('a \<Rightarrow> exn + 'b) \<Rightarrow> exn + 'b" where
  "exn_bind x f = (case x of Inl e \<Rightarrow> Inl e | Inr v \<Rightarrow> f v)"

definition is_request_exception :: "exn \<Rightarrow> bool" where
  "is_request_exception e = (e = Timeout \<or> e = RequestException \<or> e = HTTPError)"

text \<open>\<^verbatim>\<open>requests.get\<close> / \<^verbatim>\<open>requests.head\<close>: record the call, then raise or return.\<close>

definition requests_call :: "env \<Rightarrow> request \<Rightarrow> state \<Rightarrow> (exn + response) \<times> state" where
  "requests_call e rq s =
     (case http e rq of
        Raises_Timeout \<Rightarrow> Inl Timeout
      | Raises_RequestException \<Rightarrow> Inl RequestException
      | Returns r \<Rightarrow> Inr r,
      s\<lparr>trace := trace s @ [Request rq]\<rparr>)"

definition cache_get :: "string \<Rightarrow> state \<Rightarrow> string option \<times> state" where
  "cache_get k s = (cache s k, s\<lparr>trace := trace s @ [CacheGet k]\<rparr>)"

definition cache_set :: "string \<Rightarrow> string \<Rightarrow> state \<Rightarrow> state" where
  "cache_set k v s = s\<lparr>cache := (cache s)(k \<mapsto> v), trace := trace s @ [CacheSet k v]\<rparr>"

section \<open>The latest blog post (theme/gouvfr/\_\_init\_\_.py)\<close>

definition WP_TIMEOUT :: nat where
  "WP_TIMEOUT = 5"

definition FEED_THUMBNAIL_MIMES :: "string list" where
  "FEED_THUMBNAIL_MIMES = [''image/jpeg'', ''image/png'', ''image/webp'']"

record blogpost =
  title :: string
  link :: string
  date :: datetime
  summary :: string
  image_url :: "string option"
  srcset :: "string option"
  sizes :: "string option"

text \<open>Attribute access \<^verbatim>\<open>post.name\<close> and subscription \<^verbatim>\<open>d[key]\<close>.\<close>

definition getattr :: "string option \<Rightarrow> exn + string" where
  "getattr v = (case v of None \<Rightarrow> Inl AttributeError | Some x \<Rightarrow> Inr x)"

definition getitem :: "pydict \<Rightarrow> string \<Rightarrow> exn + string" where
  "getitem d k = (case map_of d k of None \<Rightarrow> Inl KeyError | Some x \<Rightarrow> Inr x)"

text \<open>
  The loop over \<^verbatim>\<open>lang, current_app.config["DEFAULT_LANGUAGE"]\<close>. A feed is
  represented by its list of entries; the argument \<open>feed\<close> is the value of the variable
  \<^verbatim>\<open>feed\<close> when the iteration starts.
\<close>

definition feed_request :: "string \<Rightarrow> request" where
  "feed_request feed_url = \<lparr>http_method = GET, url = feed_url, timeout = Some WP_TIMEOUT\<rparr>"

fun fetch_feed ::
  "env \<Rightarrow> string \<Rightarrow> string list \<Rightarrow> entry list option \<Rightarrow> state
     \<Rightarrow> (exn + entry list option) \<times> state" where
  "fetch_feed e wp_atom_url [] feed s = (Inr feed, s)"
| "fetch_feed e wp_atom_url (code # codes) feed s =
     (case format_lang e wp_atom_url code of
        Inl x \<Rightarrow> (Inl x, s)
      | Inr feed_url \<Rightarrow>
          (case requests_call e (feed_request feed_url) s of
             (Inl x, s') \<Rightarrow>
               if is_request_exception x then fetch_feed e wp_atom_url codes feed s'
               else (Inl x, s')
           | (Inr response, s') \<Rightarrow>
               (let feed' = feedparser_parse e (body response)
                in if length feed' > 0 then (Inr (Some feed'), s')
                   else fetch_feed e wp_atom_url codes (Some feed') s')))"

text \<open>\<^verbatim>\<open>content = post.get("content", [{}])[0].get("value") or description\<close>\<close>

definition entry_content :: "entry \<Rightarrow> exn + string option" where
  "entry_content post =
     (case (case post_content post of None \<Rightarrow> [[]] | Some cs \<Rightarrow> cs) of
        [] \<Rightarrow> Inl IndexError
      | c # _ \<Rightarrow> Inr (py_or (map_of c ''value'') (post_description post)))"

text \<open>The three thumbnail searches, in the order of the source.\<close>

definition media_thumbnails :: "entry \<Rightarrow> pydict list" where
  "media_thumbnails post = (case post_media_thumbnail post of None \<Rightarrow> [] | Some ts \<Rightarrow> ts)"

definition enclosures :: "entry \<Rightarrow> pydict list" where
  "enclosures post = (case post_enclosures post of None \<Rightarrow> [] | Some es \<Rightarrow> es)"

text \<open>\<^verbatim>\<open>enclosure.get("type") in FEED_THUMBNAIL_MIMES\<close>\<close>

definition is_thumbnail_mime :: "pydict \<Rightarrow> bool" where
  "is_thumbnail_mime enclosure =
     (case map_of enclosure ''type'' of
        None \<Rightarrow> False | Some t \<Rightarrow> t \<in> set FEED_THUMBNAIL_MIMES)"

definition media_thumbnail_tier :: "entry \<Rightarrow> blogpost \<Rightarrow> exn + blogpost" where
  "media_thumbnail_tier post b =
     (case media_thumbnails post of
        [] \<Rightarrow> Inr b
      | thumbnail # _ \<Rightarrow>
          exn_bind (getitem thumbnail ''url'') (\<lambda>u. Inr (b\<lparr>image_url := Some u\<rparr>)))"

fun first_enclosure :: "pydict list \<Rightarrow> exn + string option" where
  "first_enclosure [] = Inr None"
| "first_enclosure (enclosure # rest) =
     (if is_thumbnail_mime enclosure
      then exn_bind (getitem enclosure ''href'') (\<lambda>h. Inr (Some h))
      else first_enclosure rest)"

definition enclosure_tier :: "entry \<Rightarrow> blogpost \<Rightarrow> exn + blogpost" where
  "enclosure_tier post b =
     (if image_url b = None
      then exn_bind (first_enclosure (enclosures post))
             (\<lambda>r. case r of None \<Rightarrow> Inr b | Some h \<Rightarrow> Inr (b\<lparr>image_url := Some h\<rparr>))
      else Inr b)"

definition content_image_tier :: "string option \<Rightarrow> blogpost \<Rightarrow> exn + blogpost" where
  "content_image_tier content b =
     (if image_url b = None
      then (case content of
              None \<Rightarrow> Inl TypeError
            | Some c \<Rightarrow>
                (case search RE_POST_IMG c of
                   None \<Rightarrow> Inr b
                 | Some m \<Rightarrow>
                     (case match_group m ''src'' of
                        None \<Rightarrow> Inl AttributeError
                      | Some src \<Rightarrow>
                          (let b1 = b\<lparr>image_url := Some (replace ''&amp;'' ''&'' src)\<rparr>;
                               b2 = (if truthy (match_group m ''srcset'')
                                     then b1\<lparr>srcset := map_option (replace ''&amp;'' ''&'')
                                                           (match_group m ''srcset'')\<rparr>
                                     else b1)
                           in Inr (if truthy (match_group m ''sizes'')
                                   then b2\<lparr>sizes := match_group m ''sizes''\<rparr> else b2)))))
      else Inr b)"

text \<open>Lines 156 to 183: the summary of one entry.\<close>

definition summarize :: "env \<Rightarrow> entry \<Rightarrow> exn + blogpost" where
  "summarize e post =
     exn_bind (getattr (post_title post)) (\<lambda>t.
     exn_bind (getattr (post_link post)) (\<lambda>l.
     exn_bind (getattr (post_published post)) (\<lambda>p.
     exn_bind (case dateutil_parse e p of None \<Rightarrow> Inl ValueError | Some d \<Rightarrow> Inr d) (\<lambda>d.
     exn_bind (entry_content post) (\<lambda>content.
     exn_bind (case (case post_summary post of None \<Rightarrow> content | Some sm \<Rightarrow> Some sm) of
             None \<Rightarrow> Inl TypeError
           | Some sm \<Rightarrow> Inr (strip (sub_empty RE_STRIP_TAGS sm))) (\<lambda>stripped.
     exn_bind (media_thumbnail_tier post
             \<lparr>title = t, link = l, date = d, summary = stripped,
              image_url = None, srcset = None, sizes = None\<rparr>) (\<lambda>b1.
     exn_bind (enclosure_tier post b1) (\<lambda>b2.
     content_image_tier content b2))))))))"

definition get_blog_post ::
  "env \<Rightarrow> config \<Rightarrow> string \<Rightarrow> state \<Rightarrow> (exn + blogpost option) \<times> state" where
  "get_blog_post e cfg lang s =
     (case WP_ATOM_URL cfg of
        None \<Rightarrow> (Inr None, s)
      | Some wp_atom_url \<Rightarrow>
          if wp_atom_url = [] then (Inr None, s)
          else (case DEFAULT_LANGUAGE cfg of
                  None \<Rightarrow> (Inl KeyError, s)
                | Some default_language \<Rightarrow>
                    (case fetch_feed e wp_atom_url [lang, default_language] None s of
                       (Inl x, s') \<Rightarrow> (Inl x, s')
                     | (Inr None, s') \<Rightarrow> (Inr None, s')
                     | (Inr (Some []), s') \<Rightarrow> (Inr None, s')
                     | (Inr (Some (post # _)), s') \<Rightarrow>
                         (exn_bind (summarize e post) (\<lambda>b. Inr (Some b)), s'))))"

section \<open>Pages (views/gouvfr.py)\<close>

definition get_pages_gh_urls :: "config \<Rightarrow> string \<Rightarrow> string option \<Rightarrow> exn + (string \<times> string)" where
  "get_pages_gh_urls cfg slug locale =
     (case PAGES_GH_REPO_NAME cfg of
        None \<Rightarrow> Inl NotFound
      | Some repo \<Rightarrow>
          if repo = [] then Inl NotFound
          else (let branch = (case PAGES_REPO_BRANCH cfg of None \<Rightarrow> ''master'' | Some b \<Rightarrow> b)
                in case locale of
                     None \<Rightarrow>
                       Inr (''https://raw.githubusercontent.com/'' @ repo @ ''/'' @ branch
                              @ ''/pages/'' @ slug,
                            ''https://github.com/'' @ repo @ ''/blob/'' @ branch
                              @ ''/pages/'' @ slug)
                   | Some l \<Rightarrow>
                       if l \<noteq> []
                       then Inr (''https://raw.githubusercontent.com/'' @ repo @ ''/'' @ branch
                                   @ ''/pages/'' @ l @ ''/'' @ slug,
                                 ''https://github.com/'' @ repo @ ''/blob/'' @ branch
                                   @ ''/pages/'' @ slug)
                       else Inr (''https://raw.githubusercontent.com/'' @ repo @ ''/'' @ branch
                                   @ ''/pages/'' @ slug,
                                 ''https://github.com/'' @ repo @ ''/blob/'' @ branch
                                   @ ''/pages/'' @ slug)))"

text \<open>\<^verbatim>\<open>requests.head(f"{raw_url}.md")\<close> is called without a timeout argument.\<close>

definition detect_pages_extension :: "env \<Rightarrow> string \<Rightarrow> state \<Rightarrow> (exn + string) \<times> state" where
  "detect_pages_extension e raw_url s =
     (case requests_call e
             \<lparr>http_method = HEAD, url = raw_url @ ''.md'', timeout = None\<rparr> s of
        (Inl x, s') \<Rightarrow> (Inl x, s')
      | (Inr response, s') \<Rightarrow>
          (Inr (if status_code response = 200 then ''md'' else ''html''), s'))"

text \<open>
  The body of \<^verbatim>\<open>get_page_content_locale\<close>. The \<^verbatim>\<open>try\<close> block covers the probe,
  the request and \<^verbatim>\<open>raise_for_status\<close> (which raises \<open>HTTPError\<close> for a status from
  400 to 599). When the probe raises, the handler reads the cache, and the final
  \<^verbatim>\<open>return content, gh_url, extension\<close> then reads the local variable
  \<^verbatim>\<open>extension\<close>, which was never assigned.
\<close>

definition get_page_content_locale ::
  "env \<Rightarrow> config \<Rightarrow> string \<Rightarrow> string option \<Rightarrow> state
     \<Rightarrow> (exn + (string option \<times> string \<times> string)) \<times> state" where
  "get_page_content_locale e cfg slug locale s =
     (let cache_key = ''pages-content-'' @ slug @ ''-''
                        @ (case locale of None \<Rightarrow> ''default'' | Some l \<Rightarrow> l)
      in case get_pages_gh_urls cfg slug locale of
           Inl x \<Rightarrow> (Inl x, s)
         | Inr (raw_url, gh_url) \<Rightarrow>
             (case detect_pages_extension e raw_url s of
                (Inl x, s1) \<Rightarrow>
                  if is_request_exception x
                  then (case cache_get cache_key s1 of
                          (content, s2) \<Rightarrow> (Inl UnboundLocalError, s2))
                  else (Inl x, s1)
              | (Inr extension, s1) \<Rightarrow>
                  (let raw_url' = raw_url @ ''.'' @ extension;
                       gh_url' = gh_url @ ''.'' @ extension
                   in case requests_call e
                             \<lparr>http_method = GET, url = raw_url', timeout = Some 5\<rparr> s1 of
                        (Inl x, s2) \<Rightarrow>
                          if is_request_exception x
                          then (case cache_get cache_key s2 of
                                  (content, s3) \<Rightarrow> (Inr (content, gh_url', extension), s3))
                          else (Inl x, s2)
                      | (Inr response, s2) \<Rightarrow>
                          if status_code response = 404
                          then (Inr (None, gh_url', extension), s2)
                          else if 400 \<le> status_code response \<and> status_code response < 600
                          then (case cache_get cache_key s2 of
                                  (content, s3) \<Rightarrow> (Inr (content, gh_url', extension), s3))
                          else (Inr (Some (body response), gh_url', extension),
                                cache_set cache_key (body response) s2))))"

text \<open>
  \<^verbatim>\<open>get_page_content\<close>: the loop over \<^verbatim>\<open>[g.lang_code, None]\<close> with its
  \<^verbatim>\<open>else\<close> branch, which aborts with 404 when no locale gave a truthy content.
\<close>

fun page_loop ::
  "env \<Rightarrow> config \<Rightarrow> string \<Rightarrow> string option list \<Rightarrow> state
     \<Rightarrow> (exn + (string \<times> string \<times> string)) \<times> state" where
  "page_loop e cfg slug [] s = (Inl NotFound, s)"
| "page_loop e cfg slug (locale # locales) s =
     (case get_page_content_locale e cfg slug locale s of
        (Inl x, s') \<Rightarrow> (Inl x, s')
      | (Inr (content, gh_url, extension), s') \<Rightarrow>
          (case content of
             None \<Rightarrow> page_loop e cfg slug locales s'
           | Some c \<Rightarrow>
               if c \<noteq> [] then (Inr (c, gh_url, extension), s')
               else page_loop e cfg slug locales s'))"

definition get_page_content ::
  "env \<Rightarrow> config \<Rightarrow> string option \<Rightarrow> string \<Rightarrow> state
     \<Rightarrow> (exn + (string \<times> string \<times> string)) \<times> state" where
  "get_page_content e cfg lang_code slug s = page_loop e cfg slug [lang_code, None] s"

subsection \<open>References of a page\<close>

text \<open>
  The document store is a collaborator. A model gives the answers of its query set:
  \<open>filter_slug_first x\<close> is \<^verbatim>\<open>objects.filter(slug=x).first()\<close>,
  \<open>filter_id_first x\<close> is \<^verbatim>\<open>objects.filter(id=x).first()\<close>, which raises
  \<^verbatim>\<open>ValidationError\<close> on a malformed identifier, \<open>visible_filter_tags tags\<close> is the
  result set of \<^verbatim>\<open>objects.visible().filter(tags=tags)\<close> before ordering, and
  \<^verbatim>\<open>order_by('-created_at')\<close> sorts a result set by descending creation time.
\<close>

datatype 'o id_query = Raises_ValidationError | First "'o option"

record 'o model =
  filter_slug_first :: "string \<Rightarrow> 'o option"
  filter_id_first :: "string \<Rightarrow> 'o id_query"
  visible_filter_tags :: "string list \<Rightarrow> 'o list"
  created_at :: "'o \<Rightarrow> int"

definition order_by_created_at_desc :: "'o model \<Rightarrow> 'o list \<Rightarrow> 'o list" where
  "order_by_created_at_desc m xs = rev (sort_key (created_at m) xs)"

definition get_object :: "'o model \<Rightarrow> string \<Rightarrow> 'o option" where
  "get_object m id_or_slug =
     (case filter_slug_first m id_or_slug of
        Some obj \<Rightarrow> Some obj
      | None \<Rightarrow>
          (case filter_id_first m id_or_slug of
             Raises_ValidationError \<Rightarrow> None
           | First obj \<Rightarrow> obj))"

definition get_objects_from_tags :: "'o model \<Rightarrow> string list \<Rightarrow> 'o list" where
  "get_objects_from_tags m tags = order_by_created_at_desc m (visible_filter_tags m tags)"

text \<open>
  The inner loop of \<^verbatim>\<open>show_page\<close> for one model key: the state of the loop is the list
  \<^verbatim>\<open>tags\<close> and the list \<^verbatim>\<open>data[model_key]\<close>. A reference is \<open>None\<close> for a null
  entry of the front matter.
\<close>

fun refs_loop ::
  "'o model \<Rightarrow> string option list \<Rightarrow> string list \<times> 'o list \<Rightarrow> string list \<times> 'o list" where
  "refs_loop m [] (tags, data) = (tags, data)"
| "refs_loop m (None # rs) (tags, data) = refs_loop m rs (tags, data)"
| "refs_loop m (Some r0 # rs) (tags, data) =
     (let r = strip r0
      in if take 4 r = ''tag#'' then refs_loop m rs (tags @ [take 4 r], data)
         else (case get_object m r of
                 Some res \<Rightarrow> refs_loop m rs (tags, data @ [res])
               | None \<Rightarrow> refs_loop m rs (tags, data)))"

text \<open>\<open>refs\<close> is \<^verbatim>\<open>page.get(model_key)\<close>; \<open>None\<close> and the empty list are falsy.\<close>

definition show_page_refs :: "'o model \<Rightarrow> string option list option \<Rightarrow> 'o list" where
  "show_page_refs m refs =
     (case refs_loop m (case refs of None \<Rightarrow> [] | Some rs \<Rightarrow> rs) ([], []) of
        (tags, data) \<Rightarrow>
          if length tags > 0 then data @ get_objects_from_tags m tags else data)"

section \<open>Notions used in the statements\<close>

text \<open>The entries of the feed at a URL, \<open>None\<close> when the request raises.\<close>

definition fetch_entries :: "env \<Rightarrow> string \<Rightarrow> entry list option" where
  "fetch_entries e feed_url =
     (case http e (feed_request feed_url) of
        Returns response \<Rightarrow> Some (feedparser_parse e (body response))
      | _ \<Rightarrow> None)"

text \<open>A front-matter reference that is a tag marker.\<close>

definition is_tag_ref :: "string \<Rightarrow> bool" where
  "is_tag_ref r = (take 4 (strip r) = ''tag#'')"

section \<open>Example inputs\<close>

definition example_config :: config where
  "example_config =
     \<lparr>WP_ATOM_URL = Some ''https://blog.example/{lang}/feed.atom'',
      DEFAULT_LANGUAGE = Some ''en'',
      PAGES_GH_REPO_NAME = Some ''org/pages'',
      PAGES_REPO_BRANCH = None\<rparr>"

definition empty_state :: state where
  "empty_state = \<lparr>cache = Map.empty, trace = []\<rparr>"

text \<open>An entry that has a title, a link, a date and the given description only.\<close>

definition example_entry :: "string \<Rightarrow> entry" where
  "example_entry html =
     \<lparr>post_title = Some ''Title'', post_link = Some ''https://blog.example/post'',
      post_published = Some ''2024-01-01'', post_description = Some html,
      post_content = None, post_summary = None,
      post_media_thumbnail = None, post_enclosures = None\<rparr>"

text \<open>Collaborators with the given HTTP behaviour and parsed feed.\<close>

definition example_env :: "(request \<Rightarrow> http_result) \<Rightarrow> (string \<Rightarrow> entry list) \<Rightarrow> env" where
  "example_env h p =
     \<lparr>http = h, feedparser_parse = p, dateutil_parse = (\<lambda>d. Some (Datetime 0)),
      format_lang = (\<lambda>t code. Inr (replace ''{lang}'' code t))\<rparr>"

text \<open>Every request answers 200 with a page body; every request fails to connect.\<close>

definition pages_up :: env where
  "pages_up = example_env (\<lambda>rq. Returns \<lparr>status_code = 200, body = ''# FAQ''\<rparr>) (\<lambda>b. [])"

definition pages_down :: env where
  "pages_down = example_env (\<lambda>rq. Raises_RequestException) (\<lambda>b. [])"


definition inline_entry :: entry where
  "inline_entry =
     example_entry ''<p>News <img src=\"http://c/3.png\" srcset=\"x 1x\" /></p>''"


definition inline_summary :: blogpost where
  "inline_summary =
     \<lparr>title = ''Title'', link = ''https://blog.example/post'', date = Datetime 0,
      summary = ''News'', image_url = Some ''http://c/3.png'', srcset = Some ''x 1x'',
      sizes = None\<rparr>"





text \<open>The feed in French times out; the feed in English has one entry.\<close>

definition french_feed_down :: env where
  "french_feed_down =
     example_env
       (\<lambda>rq. if url rq = ''https://blog.example/fr/feed.atom'' then Raises_Timeout
             else Returns \<lparr>status_code = 200, body = ''<feed/>''\<rparr>)
       (\<lambda>b. [inline_entry])"

text \<open>Every feed request returns a feed with the one given entry.\<close>

definition one_entry_feed :: "entry \<Rightarrow> env" where
  "one_entry_feed post =
     example_env (\<lambda>rq. Returns \<lparr>status_code = 200, body = ''<feed/>''\<rparr>) (\<lambda>b. [post])"

text \<open>The French page is reported missing (404); every other request answers 200.\<close>

definition french_page_missing :: env where
  "french_page_missing =
     example_env
       (\<lambda>rq. if url rq = ''https://raw.githubusercontent.com/org/pages/master/pages/fr/faq.md''
                 \<and> http_method rq = GET
             then Returns \<lparr>status_code = 404, body = ''404: Not Found''\<rparr>
             else Returns \<lparr>status_code = 200, body = ''# FAQ''\<rparr>)
       (\<lambda>b. [])"

text \<open>
  A store of objects named by numbers, created at the time of their number: two of them
  are found by slug, and objects 1, 3 and 2 are visible under the tag marker.
\<close>

definition example_model :: "nat model" where
  "example_model =
     \<lparr>filter_slug_first = (\<lambda>x. if x = ''a'' then Some 1 else if x = ''b'' then Some 2 else None),
      filter_id_first = (\<lambda>x. Raises_ValidationError),
      visible_filter_tags = (\<lambda>tags. [1, 3, 2]),
      created_at = int\<rparr>"

section \<open>Evaluation of character classes\<close>



section \<open>Auxiliary facts\<close>

lemma exn_bind_Inr_iff: "exn_bind x f = Inr y \<longleftrightarrow> (\<exists>v. x = Inr v \<and> f v = Inr y)"
  by (cases x) (simp_all add: exn_bind_def)

lemma getitem_Inr_iff: "getitem d k = Inr v \<longleftrightarrow> map_of d k = Some v"
  by (simp add: getitem_def split: option.splits)

lemma first_enclosure_find:
  "first_enclosure es = Inr r \<Longrightarrow>
     (case find is_thumbnail_mime es of
        None \<Rightarrow> r = None
      | Some en \<Rightarrow> (\<exists>h. map_of en ''href'' = Some h \<and> r = Some h))"
  by (induction es) (auto simp: exn_bind_Inr_iff getitem_Inr_iff split: option.splits if_splits)

lemma media_thumbnail_tier_result:
  "media_thumbnail_tier post b0 = Inr b1 \<Longrightarrow>
     (case media_thumbnails post of
        [] \<Rightarrow> b1 = b0
      | t # _ \<Rightarrow> (\<exists>u. map_of t ''url'' = Some u \<and> b1 = b0\<lparr>image_url := Some u\<rparr>))"
  by (auto simp: media_thumbnail_tier_def exn_bind_Inr_iff getitem_Inr_iff split: list.splits)

lemma enclosure_tier_result:
  "enclosure_tier post b1 = Inr b2 \<Longrightarrow>
     (if image_url b1 \<noteq> None then b2 = b1
      else case find is_thumbnail_mime (enclosures post) of
             None \<Rightarrow> b2 = b1
           | Some en \<Rightarrow> (\<exists>h. map_of en ''href'' = Some h \<and> b2 = b1\<lparr>image_url := Some h\<rparr>))"
  by (auto simp: enclosure_tier_def exn_bind_Inr_iff split: option.splits if_splits
           dest!: first_enclosure_find)

lemma content_image_tier_result:
  "content_image_tier content b2 = Inr b \<Longrightarrow>
     (if image_url b2 \<noteq> None then b = b2
      else \<exists>c. content = Some c \<and>
             (case search RE_POST_IMG c of
                None \<Rightarrow> b = b2
              | Some m \<Rightarrow> image_url b = map_option (replace ''&amp;'' ''&'') (match_group m ''src'')
                           \<and> image_url b \<noteq> None))"
  by (auto simp: content_image_tier_def Let_def split: option.splits if_splits)

lemma summarize_tiers:
  assumes "summarize e post = Inr b"
  shows "\<exists>content b0 b1 b2. entry_content post = Inr content
           \<and> image_url b0 = None \<and> srcset b0 = None \<and> sizes b0 = None
           \<and> media_thumbnail_tier post b0 = Inr b1
           \<and> enclosure_tier post b1 = Inr b2
           \<and> content_image_tier content b2 = Inr b"
proof -
  from assms obtain t l d sm content b1 b2 where
    c: "entry_content post = Inr content"
    and t1: "media_thumbnail_tier post
               \<lparr>title = t, link = l, date = d, summary = sm,
                image_url = None, srcset = None, sizes = None\<rparr> = Inr b1"
    and t2: "enclosure_tier post b1 = Inr b2"
    and t3: "content_image_tier content b2 = Inr b"
    unfolding summarize_def exn_bind_Inr_iff by blast
  show ?thesis
    by (rule exI [of _ content],
        rule exI [of _ "\<lparr>title = t, link = l, date = d, summary = sm,
                image_url = None, srcset = None, sizes = None\<rparr>"],
        rule exI [of _ b1], rule exI [of _ b2]) (simp add: c t1 t2 t3)
qed

text \<open>What an entry's summary says about the tier that gave the image.\<close>

lemma summarize_image_source:
  assumes "summarize e post = Inr b"
  shows "(case media_thumbnails post of
            t # _ \<Rightarrow> (\<exists>u. map_of t ''url'' = Some u \<and> image_url b = Some u)
                     \<and> srcset b = None \<and> sizes b = None
          | [] \<Rightarrow>
              (case find is_thumbnail_mime (enclosures post) of
                 Some en \<Rightarrow> (\<exists>h. map_of en ''href'' = Some h \<and> image_url b = Some h)
                            \<and> srcset b = None \<and> sizes b = None
               | None \<Rightarrow>
                   (\<exists>c. entry_content post = Inr (Some c) \<and>
                      image_url b =
                        (case search RE_POST_IMG c of
                           None \<Rightarrow> None
                         | Some m \<Rightarrow> map_option (replace ''&amp;'' ''&'') (match_group m ''src''))
                      \<and> (search RE_POST_IMG c = None \<longrightarrow> srcset b = None \<and> sizes b = None))))"
proof -
  from summarize_tiers [OF assms] obtain content b0 b1 b2 where
    c: "entry_content post = Inr content"
    and z: "image_url b0 = None" "srcset b0 = None" "sizes b0 = None"
    and t1: "media_thumbnail_tier post b0 = Inr b1"
    and t2: "enclosure_tier post b1 = Inr b2"
    and t3: "content_image_tier content b2 = Inr b"
    by blast
  show ?thesis
  proof (cases "media_thumbnails post")
    case (Cons t ts)
    with media_thumbnail_tier_result [OF t1] z obtain u where
      u: "map_of t ''url'' = Some u" "image_url b1 = Some u"
         "srcset b1 = None" "sizes b1 = None" by auto
    with enclosure_tier_result [OF t2]
    have "image_url b2 = Some u \<and> srcset b2 = None \<and> sizes b2 = None" by simp
    with content_image_tier_result [OF t3]
    have "image_url b = Some u \<and> srcset b = None \<and> sizes b = None" by simp
    with u Cons show ?thesis by simp
  next
    case Nil
    with media_thumbnail_tier_result [OF t1] z
    have b1: "image_url b1 = None" "srcset b1 = None" "sizes b1 = None" by simp_all
    show ?thesis
    proof (cases "find is_thumbnail_mime (enclosures post)")
      case (Some en)
      with enclosure_tier_result [OF t2] b1 obtain h where
        h: "map_of en ''href'' = Some h" "image_url b2 = Some h"
           "srcset b2 = None" "sizes b2 = None" by auto
      with content_image_tier_result [OF t3]
      have "image_url b = Some h \<and> srcset b = None \<and> sizes b = None" by simp
      with h Nil Some show ?thesis by simp
    next
      case None
      with enclosure_tier_result [OF t2] b1
      have b2: "image_url b2 = None" "srcset b2 = None" "sizes b2 = None" by simp_all
      with content_image_tier_result [OF t3] obtain c' where
        "content = Some c'"
        "case search RE_POST_IMG c' of
           None \<Rightarrow> b = b2
         | Some m \<Rightarrow> image_url b = map_option (replace ''&amp;'' ''&'') (match_group m ''src'')
                      \<and> image_url b \<noteq> None"
        by auto
      with b2 c Nil None show ?thesis
        by (auto split: option.splits)
    qed
  qed
qed

lemma get_blog_post_summarize:
  assumes "fst (get_blog_post e cfg lang s) = Inr (Some b)"
  shows "\<exists>post. summarize e post = Inr b"
  using assms
  by (auto simp: get_blog_post_def exn_bind_Inr_iff
           split: option.splits if_splits prod.splits sum.splits list.splits)

lemma summarize_inline_entry:
  "summarize (one_entry_feed inline_entry) inline_entry = Inr inline_summary"
  by code_simp

lemma summarize_french_feed_down:
  "summarize french_feed_down inline_entry = Inr inline_summary"
  by code_simp

lemma requests_call_feed:
  "requests_call e (feed_request u) s =
     (case http e (feed_request u) of
        Raises_Timeout \<Rightarrow> Inl Timeout
      | Raises_RequestException \<Rightarrow> Inl RequestException
      | Returns r \<Rightarrow> Inr r,
      s\<lparr>trace := trace s @ [Request (feed_request u)]\<rparr>)"
  by (simp add: requests_call_def)

lemma refs_loop_acc:
  "refs_loop m rs (tags, data) =
     (tags @ map (\<lambda>r. ''tag#'') (filter is_tag_ref (List.map_filter id rs)),
      data @ List.map_filter (\<lambda>r. get_object m (strip r))
               (filter (\<lambda>r. \<not> is_tag_ref r) (List.map_filter id rs)))"
proof (induction rs arbitrary: tags data)
  case Nil
  show ?case by (simp add: List.map_filter_simps)
next
  case (Cons r rs)
  show ?case
  proof (cases r)
    case None
    with Cons show ?thesis by (simp add: List.map_filter_simps)
  next
    case (Some r0)
    with Cons show ?thesis
      by (cases "get_object m (strip r0)")
         (simp_all add: List.map_filter_simps is_tag_ref_def Let_def)
  qed
qed

lemma order_by_created_at_desc_sorted:
  "sorted_wrt (\<lambda>a b. created_at m b \<le> created_at m a) (order_by_created_at_desc m xs)"
proof -
  have "sorted (map (created_at m) (sort_key (created_at m) xs))" by simp
  then have "sorted_wrt (\<lambda>a b. created_at m a \<le> created_at m b) (sort_key (created_at m) xs)"
    by (simp add: sorted_wrt_map)
  then show ?thesis
    by (simp add: order_by_created_at_desc_def sorted_wrt_rev)
qed














section \<open>Location of a page\<close>

text \<open>
  C6 (as stated): for every slug and locale, \<open>get_pages_gh_urls\<close> returns the same
  raw URL and the same browsable URL as for no locale. This fails: with the locale
  \<open>fr\<close> the raw URL has the path \<open>pages/fr/faq\<close>, without a locale \<open>pages/faq\<close>.
\<close>

theorem get_pages_gh_urls_locale_counterexample:
  "get_pages_gh_urls example_config ''faq'' (Some ''fr'')
     = Inr (''https://raw.githubusercontent.com/org/pages/master/pages/fr/faq'',
            ''https://github.com/org/pages/blob/master/pages/faq'')
   \<and> get_pages_gh_urls example_config ''faq'' None
     = Inr (''https://raw.githubusercontent.com/org/pages/master/pages/faq'',
            ''https://github.com/org/pages/blob/master/pages/faq'')
   \<and> get_pages_gh_urls example_config ''faq'' (Some ''fr'')
     \<noteq> get_pages_gh_urls example_config ''faq'' None"
  by (simp add: get_pages_gh_urls_def example_config_def)

text \<open>
  C6 (amended): the outcome of \<open>get_pages_gh_urls\<close> apart from the raw URL, that is,
  the browsable URL or the abort, does not depend on the locale; the whole result is
  that of no locale when the locale is \<open>None\<close> or empty; and for a non-empty locale
  \<open>l\<close> (and a configured repository) the raw URL is the one with the path
  \<open>pages/l/slug\<close>.
\<close>

theorem get_pages_gh_urls_locale:
  "map_sum id snd (get_pages_gh_urls cfg slug locale)
     = map_sum id snd (get_pages_gh_urls cfg slug None)
   \<and> (\<not> truthy locale \<longrightarrow> get_pages_gh_urls cfg slug locale = get_pages_gh_urls cfg slug None)
   \<and> (\<forall>repo l. PAGES_GH_REPO_NAME cfg = Some repo \<and> repo \<noteq> [] \<and> locale = Some l \<and> l \<noteq> []
        \<longrightarrow> map_sum id fst (get_pages_gh_urls cfg slug locale)
              = Inr (''https://raw.githubusercontent.com/'' @ repo @ ''/''
                     @ (case PAGES_REPO_BRANCH cfg of None \<Rightarrow> ''master'' | Some b \<Rightarrow> b)
                     @ ''/pages/'' @ l @ ''/'' @ slug))"
  by (auto simp: get_pages_gh_urls_def truthy_def Let_def split: option.splits)

theorem get_pages_gh_urls_locale_witness:
  "PAGES_GH_REPO_NAME example_config = Some ''org/pages'' \<and> ''org/pages'' \<noteq> []
   \<and> Some ''fr'' = Some ''fr'' \<and> ''fr'' \<noteq> [] \<and> \<not> truthy (Some [])
   \<and> map_sum id fst (get_pages_gh_urls example_config ''faq'' (Some ''fr''))
       = Inr ''https://raw.githubusercontent.com/org/pages/master/pages/fr/faq''
   \<and> map_sum id snd (get_pages_gh_urls example_config ''faq'' (Some ''fr''))
       = Inr ''https://github.com/org/pages/blob/master/pages/faq''
   \<and> get_pages_gh_urls example_config ''faq'' (Some [])
       = get_pages_gh_urls example_config ''faq'' None"
proof -
  have r: "PAGES_GH_REPO_NAME example_config = Some ''org/pages''"
    and b: "PAGES_REPO_BRANCH example_config = None"
    by (simp_all add: example_config_def)
  have n: "map_sum id snd (get_pages_gh_urls example_config ''faq'' None)
             = Inr ''https://github.com/org/pages/blob/master/pages/faq''"
    by (simp add: get_pages_gh_urls_def example_config_def)
  have t: "\<not> truthy (Some [])" by (simp add: truthy_def)
  from get_pages_gh_urls_locale [of example_config "''faq''" "Some ''fr''"] r b n
  have "map_sum id fst (get_pages_gh_urls example_config ''faq'' (Some ''fr''))
          = Inr ''https://raw.githubusercontent.com/org/pages/master/pages/fr/faq''
        \<and> map_sum id snd (get_pages_gh_urls example_config ''faq'' (Some ''fr''))
          = Inr ''https://github.com/org/pages/blob/master/pages/faq''"
    by simp
  moreover from get_pages_gh_urls_locale [of example_config "''faq''" "Some []"] t
  have "get_pages_gh_urls example_config ''faq'' (Some [])
          = get_pages_gh_urls example_config ''faq'' None"
    by blast
  ultimately show ?thesis using r t by simp
qed

section \<open>The first image of a fragment\<close>

text \<open>
  C5 (as stated): on the fragment \<^verbatim>\<open><img src="http://a/b.png" srcset="c 1x, d 2x"
  sizes="100vw">\<close> the search yields the three attributes. This fails: the pattern ends
  with \<^verbatim>\<open>/>\<close>, the fragment has no \<^verbatim>\<open>/>\<close>, so the pattern does not match and the
  summary of an entry with this content has no image.
\<close>

theorem extract_first_image_counterexample:
  "search RE_POST_IMG ''<img src=\"http://a/b.png\" srcset=\"c 1x, d 2x\" sizes=\"100vw\">''
     = None
   \<and> map_sum id (\<lambda>b. (image_url b, srcset b, sizes b))
        (summarize pages_up
           (example_entry
              ''<img src=\"http://a/b.png\" srcset=\"c 1x, d 2x\" sizes=\"100vw\">''))
     = Inr (None, None, None)"
  by code_simp

text \<open>
  C5 (amended): on the same image tag closed with \<^verbatim>\<open>/>\<close>, the pattern matches and
  the groups are \<open>src = http://a/b.png\<close>, \<open>srcset = c 1x, d 2x\<close> and
  \<open>sizes = 100vw\<close>, which become the image fields of the summary.
\<close>

theorem extract_first_image_self_closing:
  "map_option (\<lambda>m. (match_group m ''src'', match_group m ''srcset'', match_group m ''sizes''))
     (search RE_POST_IMG
        ''<img src=\"http://a/b.png\" srcset=\"c 1x, d 2x\" sizes=\"100vw\"/>'')
     = Some (Some ''http://a/b.png'', Some ''c 1x, d 2x'', Some ''100vw'')
   \<and> map_sum id (\<lambda>b. (image_url b, srcset b, sizes b))
        (summarize pages_up
           (example_entry
              ''<img src=\"http://a/b.png\" srcset=\"c 1x, d 2x\" sizes=\"100vw\"/>''))
     = Inr (Some ''http://a/b.png'', Some ''c 1x, d 2x'', Some ''100vw'')"
  by code_simp

section \<open>Exceptions that leave the operations\<close>

text \<open>
  C1: no public operation lets an exception reach its caller. The code does: when the
  extension probe cannot connect, \<open>get_page_content_locale\<close> (and with it
  \<open>get_page_content\<close>) ends in \<open>UnboundLocalError\<close>; and when the first image tag of
  the content has a \<open>srcset\<close> but no absolute \<open>src\<close>, \<open>get_blog_post\<close> ends in
  \<open>AttributeError\<close>.
\<close>

theorem exceptions_reach_the_caller:
  "fst (get_page_content_locale pages_down example_config ''faq'' None empty_state)
     = Inl UnboundLocalError
   \<and> fst (get_page_content pages_down example_config (Some ''fr'') ''faq'' empty_state)
     = Inl UnboundLocalError
   \<and> fst (get_blog_post (one_entry_feed (example_entry ''<img srcset=\"a 1x\" />''))
            example_config ''fr'' empty_state)
     = Inl AttributeError"
proof (intro conjI)
  show "fst (get_page_content_locale pages_down example_config ''faq'' None empty_state)
          = Inl UnboundLocalError"
    by (simp add: get_page_content_locale_def get_pages_gh_urls_def example_config_def
          pages_down_def example_env_def detect_pages_extension_def requests_call_def
          is_request_exception_def cache_get_def empty_state_def Let_def)
  show "fst (get_page_content pages_down example_config (Some ''fr'') ''faq'' empty_state)
          = Inl UnboundLocalError"
    by (simp add: get_page_content_def get_page_content_locale_def get_pages_gh_urls_def
          example_config_def pages_down_def example_env_def detect_pages_extension_def
          requests_call_def is_request_exception_def cache_get_def empty_state_def Let_def)
  show "fst (get_blog_post (one_entry_feed (example_entry ''<img srcset=\"a 1x\" />''))
              example_config ''fr'' empty_state)
          = Inl AttributeError"
    by code_simp
qed

text \<open>
  C2: after a successful fetch has stored the body of a page in the fallback cache, a
  later transport failure returns that body. In the code, a failure of the probe (the
  first request, so the one that fails when the remote is unreachable) reads the cache
  and then ends in \<open>UnboundLocalError\<close> instead of returning what it read.
\<close>

theorem cached_body_lost_when_probe_fails:
  "(case get_page_content_locale pages_up example_config ''faq'' None empty_state of
      (r, s) \<Rightarrow>
        r = Inr (Some ''# FAQ'', ''https://github.com/org/pages/blob/master/pages/faq.md'',
                 ''md'')
        \<and> cache s ''pages-content-faq-default'' = Some ''# FAQ''
        \<and> fst (get_page_content_locale pages_down example_config ''faq'' None s)
            = Inl UnboundLocalError
        \<and> last (trace (snd (get_page_content_locale pages_down example_config ''faq'' None s)))
            = CacheGet ''pages-content-faq-default'')"
  by (simp add: get_page_content_locale_def get_pages_gh_urls_def example_config_def
        pages_up_def pages_down_def example_env_def detect_pages_extension_def
        requests_call_def is_request_exception_def cache_get_def cache_set_def
        empty_state_def Let_def)

text \<open>
  C8: every remote call is issued with a timeout of 5. The two \<^verbatim>\<open>requests.get\<close> calls
  are; the \<^verbatim>\<open>requests.head\<close> probe of \<open>detect_pages_extension\<close> is issued without
  any timeout.
\<close>

theorem probe_has_no_timeout:
  "trace (snd (get_page_content_locale pages_up example_config ''faq'' None empty_state))
     = [Request \<lparr>http_method = HEAD,
                 url = ''https://raw.githubusercontent.com/org/pages/master/pages/faq.md'',
                 timeout = None\<rparr>,
        Request \<lparr>http_method = GET,
                 url = ''https://raw.githubusercontent.com/org/pages/master/pages/faq.md'',
                 timeout = Some 5\<rparr>,
        CacheSet ''pages-content-faq-default'' ''# FAQ'']
   \<and> trace (snd (get_blog_post pages_up example_config ''fr'' empty_state))
     = [Request \<lparr>http_method = GET, url = ''https://blog.example/fr/feed.atom'',
                 timeout = Some 5\<rparr>,
        Request \<lparr>http_method = GET, url = ''https://blog.example/en/feed.atom'',
                 timeout = Some 5\<rparr>]"
  by (simp add: get_page_content_locale_def get_pages_gh_urls_def example_config_def
        pages_up_def example_env_def detect_pages_extension_def requests_call_def
        is_request_exception_def cache_get_def cache_set_def empty_state_def Let_def
        get_blog_post_def feed_request_def WP_TIMEOUT_def)

section \<open>The thumbnail of a summary\<close>




text \<open>
  C10: a summary returned by \<open>get_blog_post\<close> is the summary of an entry such
  that, when the entry has a media thumbnail or an enclosure of an accepted type, the
  summary has neither \<open>srcset\<close> nor \<open>sizes\<close>; and when the summary has
  \<open>srcset\<close> or \<open>sizes\<close>, the entry has no media thumbnail and no accepted enclosure
  and the image comes from a match of the image pattern in the content.
\<close>

theorem srcset_sizes_only_from_content:
  assumes "fst (get_blog_post e cfg lang s) = Inr (Some b)"
  shows "\<exists>post. summarize e post = Inr b
           \<and> (media_thumbnails post \<noteq> [] \<or> find is_thumbnail_mime (enclosures post) \<noteq> None
                \<longrightarrow> srcset b = None \<and> sizes b = None)
           \<and> (srcset b \<noteq> None \<or> sizes b \<noteq> None
                \<longrightarrow> media_thumbnails post = []
                    \<and> find is_thumbnail_mime (enclosures post) = None
                    \<and> (\<exists>c m. entry_content post = Inr (Some c)
                           \<and> search RE_POST_IMG c = Some m
                           \<and> image_url b
                               = map_option (replace ''&amp;'' ''&'') (match_group m ''src'')))"
proof -
  from get_blog_post_summarize [OF assms] obtain post where p: "summarize e post = Inr b" ..
  from summarize_image_source [OF p]
  have "(media_thumbnails post \<noteq> [] \<or> find is_thumbnail_mime (enclosures post) \<noteq> None
           \<longrightarrow> srcset b = None \<and> sizes b = None)
        \<and> (srcset b \<noteq> None \<or> sizes b \<noteq> None
             \<longrightarrow> media_thumbnails post = []
                 \<and> find is_thumbnail_mime (enclosures post) = None
                 \<and> (\<exists>c m. entry_content post = Inr (Some c)
                        \<and> search RE_POST_IMG c = Some m
                        \<and> image_url b
                            = map_option (replace ''&amp;'' ''&'') (match_group m ''src'')))"
    by (cases "media_thumbnails post"; cases "find is_thumbnail_mime (enclosures post)")
       (auto split: option.splits)
  with p show ?thesis by blast
qed

theorem srcset_sizes_only_from_content_witness:
  "fst (get_blog_post (one_entry_feed inline_entry) example_config ''fr'' empty_state)
     = Inr (Some inline_summary)
   \<and> srcset inline_summary = Some ''x 1x''
   \<and> (\<exists>post. summarize (one_entry_feed inline_entry) post = Inr inline_summary
         \<and> media_thumbnails post = []
         \<and> find is_thumbnail_mime (enclosures post) = None)"
proof -
  have g: "fst (get_blog_post (one_entry_feed inline_entry) example_config ''fr'' empty_state)
             = Inr (Some inline_summary)"
    by (simp add: get_blog_post_def example_config_def one_entry_feed_def example_env_def
          requests_call_def summarize_inline_entry [unfolded one_entry_feed_def example_env_def]
          exn_bind_def)
  have x: "srcset inline_summary = Some ''x 1x''" by (simp add: inline_summary_def)
  from srcset_sizes_only_from_content [OF g] x g show ?thesis by auto
qed

section \<open>Language fallback of the feed\<close>

text \<open>
  C4: with a feed URL configured, \<open>get_blog_post\<close> first requests the URL for the
  preferred language; if that request raises or its feed has no entry, it requests the
  URL for the default language; if that one raises or has no entry either, the result is
  \<open>None\<close>, with no exception; otherwise the result is the summary of the first
  entry, in the order of the parser, of the first feed that has an entry.
\<close>

theorem get_blog_post_language_fallback:
  assumes "WP_ATOM_URL cfg = Some t" and "t \<noteq> []" and "DEFAULT_LANGUAGE cfg = Some d"
    and "format_lang e t lang = Inr u1" and "format_lang e t d = Inr u2"
  shows "get_blog_post e cfg lang s =
     (case fetch_entries e u1 of
        Some (post # _) \<Rightarrow>
          (exn_bind (summarize e post) (\<lambda>b. Inr (Some b)),
           s\<lparr>trace := trace s @ [Request (feed_request u1)]\<rparr>)
      | _ \<Rightarrow>
          (case fetch_entries e u2 of
             Some (post # _) \<Rightarrow>
               (exn_bind (summarize e post) (\<lambda>b. Inr (Some b)),
                s\<lparr>trace := trace s @ [Request (feed_request u1), Request (feed_request u2)]\<rparr>)
           | _ \<Rightarrow>
               (Inr None,
                s\<lparr>trace := trace s @ [Request (feed_request u1), Request (feed_request u2)]\<rparr>)))"
  using assms
  by (cases "http e (feed_request u1)"; cases "http e (feed_request u2)")
     (auto simp: get_blog_post_def fetch_entries_def requests_call_feed is_request_exception_def
                 Let_def split: list.splits)

theorem get_blog_post_language_fallback_witness:
  "WP_ATOM_URL example_config = Some ''https://blog.example/{lang}/feed.atom''
   \<and> DEFAULT_LANGUAGE example_config = Some ''en''
   \<and> format_lang french_feed_down ''https://blog.example/{lang}/feed.atom'' ''fr''
       = Inr ''https://blog.example/fr/feed.atom''
   \<and> format_lang french_feed_down ''https://blog.example/{lang}/feed.atom'' ''en''
       = Inr ''https://blog.example/en/feed.atom''
   \<and> fetch_entries french_feed_down ''https://blog.example/fr/feed.atom'' = None
   \<and> get_blog_post french_feed_down example_config ''fr'' empty_state
       = (Inr (Some inline_summary),
          empty_state\<lparr>trace :=
            [Request (feed_request ''https://blog.example/fr/feed.atom''),
             Request (feed_request ''https://blog.example/en/feed.atom'')]\<rparr>)"
proof -
  have a1: "WP_ATOM_URL example_config = Some ''https://blog.example/{lang}/feed.atom''"
    and a3: "DEFAULT_LANGUAGE example_config = Some ''en''"
    by (simp_all add: example_config_def)
  have a2: "''https://blog.example/{lang}/feed.atom'' \<noteq> []" by simp
  have a4: "format_lang french_feed_down ''https://blog.example/{lang}/feed.atom'' ''fr''
              = Inr ''https://blog.example/fr/feed.atom''"
    and a5: "format_lang french_feed_down ''https://blog.example/{lang}/feed.atom'' ''en''
              = Inr ''https://blog.example/en/feed.atom''"
    by (simp_all add: french_feed_down_def example_env_def)
  have f1: "fetch_entries french_feed_down ''https://blog.example/fr/feed.atom'' = None"
    and f2: "fetch_entries french_feed_down ''https://blog.example/en/feed.atom''
               = Some [inline_entry]"
    by (simp_all add: fetch_entries_def french_feed_down_def example_env_def feed_request_def)
  from get_blog_post_language_fallback [OF a1 a2 a3 a4 a5, of empty_state]
  have "get_blog_post french_feed_down example_config ''fr'' empty_state
          = (Inr (Some inline_summary),
             empty_state\<lparr>trace :=
               [Request (feed_request ''https://blog.example/fr/feed.atom''),
                Request (feed_request ''https://blog.example/en/feed.atom'')]\<rparr>)"
    by (simp add: f1 f2 summarize_french_feed_down exn_bind_def empty_state_def)
  with a1 a3 a4 a5 f1 show ?thesis by simp
qed

section \<open>A page reported missing\<close>

text \<open>
  C7: when the probe returns and the request for the page of a locale returns status
  404, \<open>get_page_content_locale\<close> returns no content with the URL and extension, the
  cache is neither read nor written (the state only gains the two requests), and
  \<open>get_page_content\<close> goes on with the page without locale: it returns that page's
  content if it is not empty and aborts with not-found otherwise.
\<close>

theorem not_found_skips_cache:
  assumes "get_pages_gh_urls cfg slug locale = Inr (raw_url, gh_url)"
    and "http e \<lparr>http_method = HEAD, url = raw_url @ ''.md'', timeout = None\<rparr> = Returns probe"
    and "extension = (if status_code probe = 200 then ''md'' else ''html'')"
    and "http e \<lparr>http_method = GET, url = raw_url @ ''.'' @ extension, timeout = Some 5\<rparr>
           = Returns response"
    and "status_code response = 404"
    and "s' = s\<lparr>trace := trace s @
                 [Request \<lparr>http_method = HEAD, url = raw_url @ ''.md'', timeout = None\<rparr>,
                  Request \<lparr>http_method = GET, url = raw_url @ ''.'' @ extension,
                           timeout = Some 5\<rparr>]\<rparr>"
  shows "get_page_content_locale e cfg slug locale s
           = (Inr (None, gh_url @ ''.'' @ extension, extension), s')
         \<and> cache s' = cache s
         \<and> get_page_content e cfg locale slug s =
             (case get_page_content_locale e cfg slug None s' of
                (Inl x, s'') \<Rightarrow> (Inl x, s'')
              | (Inr (content, u, ext), s'') \<Rightarrow>
                  (case content of
                     None \<Rightarrow> (Inl NotFound, s'')
                   | Some c \<Rightarrow> if c \<noteq> [] then (Inr (c, u, ext), s'') else (Inl NotFound, s'')))"
proof -
  from assms have l: "get_page_content_locale e cfg slug locale s
           = (Inr (None, gh_url @ ''.'' @ extension, extension), s')"
    by (simp add: get_page_content_locale_def requests_call_def detect_pages_extension_def
                  Let_def)
  from assms(6) have c: "cache s' = cache s" by simp
  have "get_page_content e cfg locale slug s =
             (case get_page_content_locale e cfg slug None s' of
                (Inl x, s'') \<Rightarrow> (Inl x, s'')
              | (Inr (content, u, ext), s'') \<Rightarrow>
                  (case content of
                     None \<Rightarrow> (Inl NotFound, s'')
                   | Some c \<Rightarrow> if c \<noteq> [] then (Inr (c, u, ext), s'') else (Inl NotFound, s'')))"
    by (simp add: get_page_content_def l split: prod.splits sum.splits option.splits)
  with l c show ?thesis by simp
qed


theorem not_found_skips_cache_witness:
  "get_pages_gh_urls example_config ''faq'' (Some ''fr'')
     = Inr (''https://raw.githubusercontent.com/org/pages/master/pages/fr/faq'',
            ''https://github.com/org/pages/blob/master/pages/faq'')
   \<and> http french_page_missing
        \<lparr>http_method = GET,
         url = ''https://raw.githubusercontent.com/org/pages/master/pages/fr/faq.md'',
         timeout = Some 5\<rparr>
       = Returns \<lparr>status_code = 404, body = ''404: Not Found''\<rparr>
   \<and> get_page_content_locale french_page_missing example_config ''faq'' (Some ''fr'')
        empty_state
       = (Inr (None, ''https://github.com/org/pages/blob/master/pages/faq.md'', ''md''),
          empty_state\<lparr>trace :=
            [Request \<lparr>http_method = HEAD,
               url = ''https://raw.githubusercontent.com/org/pages/master/pages/fr/faq.md'',
               timeout = None\<rparr>,
             Request \<lparr>http_method = GET,
               url = ''https://raw.githubusercontent.com/org/pages/master/pages/fr/faq.md'',
               timeout = Some 5\<rparr>]\<rparr>)
   \<and> fst (get_page_content french_page_missing example_config (Some ''fr'') ''faq''
             empty_state)
       = Inr (''# FAQ'', ''https://github.com/org/pages/blob/master/pages/faq.md'', ''md'')"
proof -
  let ?raw = "''https://raw.githubusercontent.com/org/pages/master/pages/fr/faq''"
  let ?gh = "''https://github.com/org/pages/blob/master/pages/faq''"
  let ?s' = "empty_state\<lparr>trace := trace empty_state @
               [Request \<lparr>http_method = HEAD, url = ?raw @ ''.md'', timeout = None\<rparr>,
                Request \<lparr>http_method = GET, url = ?raw @ ''.'' @ ''md'',
                         timeout = Some 5\<rparr>]\<rparr>"
  have u: "get_pages_gh_urls example_config ''faq'' (Some ''fr'') = Inr (?raw, ?gh)"
    by (simp add: get_pages_gh_urls_def example_config_def)
  have p: "http french_page_missing
             \<lparr>http_method = HEAD, url = ?raw @ ''.md'', timeout = None\<rparr>
           = Returns \<lparr>status_code = 200, body = ''# FAQ''\<rparr>"
    by (simp add: french_page_missing_def example_env_def)
  have x: "''md'' = (if status_code \<lparr>status_code = 200, body = ''# FAQ''\<rparr> = 200
                     then ''md'' else ''html'')"
    by simp
  have g: "http french_page_missing
             \<lparr>http_method = GET, url = ?raw @ ''.'' @ ''md'', timeout = Some 5\<rparr>
           = Returns \<lparr>status_code = 404, body = ''404: Not Found''\<rparr>"
    by (simp add: french_page_missing_def example_env_def)
  have n: "status_code \<lparr>status_code = 404, body = ''404: Not Found''\<rparr> = 404" by simp
  have "\<exists>s2. get_page_content_locale french_page_missing example_config ''faq'' None
               \<lparr>cache = Map.empty,
                trace =
                  [Request \<lparr>http_method = HEAD,
                     url = ''https://raw.githubusercontent.com/org/pages/master/pages/fr/faq.md'',
                     timeout = None\<rparr>,
                   Request \<lparr>http_method = GET,
                     url = ''https://raw.githubusercontent.com/org/pages/master/pages/fr/faq.md'',
                     timeout = Some 5\<rparr>]\<rparr>
             = (Inr (Some ''# FAQ'',
                     ''https://github.com/org/pages/blob/master/pages/faq.md'', ''md''), s2)"
    by (simp add: get_page_content_locale_def get_pages_gh_urls_def example_config_def
          french_page_missing_def example_env_def detect_pages_extension_def requests_call_def
          cache_set_def Let_def)
  then obtain s2 where second:
    "get_page_content_locale french_page_missing example_config ''faq'' None
       \<lparr>cache = Map.empty,
        trace =
          [Request \<lparr>http_method = HEAD,
             url = ''https://raw.githubusercontent.com/org/pages/master/pages/fr/faq.md'',
             timeout = None\<rparr>,
           Request \<lparr>http_method = GET,
             url = ''https://raw.githubusercontent.com/org/pages/master/pages/fr/faq.md'',
             timeout = Some 5\<rparr>]\<rparr>
     = (Inr (Some ''# FAQ'', ''https://github.com/org/pages/blob/master/pages/faq.md'', ''md''),
        s2)" ..
  from not_found_skips_cache [where s = empty_state, OF u p x g n refl]
  have "get_page_content_locale french_page_missing example_config ''faq'' (Some ''fr'')
          empty_state = (Inr (None, ?gh @ ''.'' @ ''md'', ''md''), ?s')"
    and "fst (get_page_content french_page_missing example_config (Some ''fr'') ''faq''
                empty_state)
          = Inr (''# FAQ'', ?gh @ ''.md'', ''md'')"
    by (simp_all add: second empty_state_def)
  with u g show ?thesis by (simp add: empty_state_def)
qed

section \<open>References of a page in order\<close>

text \<open>
  C9: for one resource kind, the list produced for a page is the objects found for the
  references that are not tag markers, in the order of the front matter (references that
  resolve to nothing are left out), followed, when there is at least one tag marker, by
  the objects of the tag query, which are those of the visible tagged result set, each as
  often as there, ordered by descending creation time. Nothing is removed from either
  part.
\<close>

theorem show_page_refs_order:
  "show_page_refs m refs =
     (let rs = List.map_filter id (case refs of None \<Rightarrow> [] | Some rs \<Rightarrow> rs)
      in List.map_filter (\<lambda>r. get_object m (strip r)) (filter (\<lambda>r. \<not> is_tag_ref r) rs)
         @ (if filter is_tag_ref rs = [] then []
            else get_objects_from_tags m (map (\<lambda>r. ''tag#'') (filter is_tag_ref rs))))
   \<and> sorted_wrt (\<lambda>a b. created_at m b \<le> created_at m a) (get_objects_from_tags m tags)
   \<and> mset (get_objects_from_tags m tags) = mset (visible_filter_tags m tags)"
proof (intro conjI)
  show "show_page_refs m refs =
     (let rs = List.map_filter id (case refs of None \<Rightarrow> [] | Some rs \<Rightarrow> rs)
      in List.map_filter (\<lambda>r. get_object m (strip r)) (filter (\<lambda>r. \<not> is_tag_ref r) rs)
         @ (if filter is_tag_ref rs = [] then []
            else get_objects_from_tags m (map (\<lambda>r. ''tag#'') (filter is_tag_ref rs))))"
    by (simp add: show_page_refs_def refs_loop_acc Let_def)
  show "sorted_wrt (\<lambda>a b. created_at m b \<le> created_at m a) (get_objects_from_tags m tags)"
    unfolding get_objects_from_tags_def by (rule order_by_created_at_desc_sorted)
  show "mset (get_objects_from_tags m tags) = mset (visible_filter_tags m tags)"
    by (simp add: get_objects_from_tags_def order_by_created_at_desc_def)
qed

theorem show_page_refs_order_witness:
  "show_page_refs example_model
     (Some [Some ''b'', None, Some '' tag#news '', Some ''a'', Some ''unknown''])
   = [2, 1, 3, 2, 1]"
proof -
  have "(let rs = List.map_filter id
                    (case Some [Some ''b'', None, Some '' tag#news '', Some ''a'',
                                Some ''unknown''] of
                       None \<Rightarrow> [] | Some rs \<Rightarrow> rs)
         in List.map_filter (\<lambda>r. get_object example_model (strip r))
              (filter (\<lambda>r. \<not> is_tag_ref r) rs)
            @ (if filter is_tag_ref rs = [] then []
               else get_objects_from_tags example_model
                      (map (\<lambda>r. ''tag#'') (filter is_tag_ref rs))))
        = [2, 1, 3, 2, 1]"
    by code_simp
  with show_page_refs_order
         [of example_model
             "Some [Some ''b'', None, Some '' tag#news '', Some ''a'', Some ''unknown'']"]
  show ?thesis by simp
qed

end
